theory Spec2Isabelle
  imports Main
begin

section \<open>Text and values of the interpreter\<close>

text \<open>
  A Python \<open>str\<close> is a sequence of Unicode code points, so text is a list of
  natural numbers. \<open>u\<close> turns an ASCII literal of this theory into such a text.
\<close>

type_synonym ustr = "nat list"

definition u :: "string \<Rightarrow> ustr" where
  "u s = map of_char s"

text \<open>The degree sign U+00B0 and the em dash U+2014 of the source's literals.\<close>

definition degree :: nat where
  "degree = 176"

definition emdash :: nat where
  "emdash = 8212"

text \<open>
  The values a decoded JSON document is made of, which are also the values the handlers
  pass around: \<open>None\<close>, booleans, integers, floats, text, lists and dicts with text
  keys (in insertion order, keys distinct). The float type \<open>'f\<close> is left open: how a
  float is printed, tested and parsed is taken from the environment below.
\<close>

datatype 'f pyval =
    PNone
  | PBool bool
  | PInt int
  | PFloat 'f
  | PStr ustr
  | PList "'f pyval list"
  | PDict "(ustr \<times> 'f pyval) list"

text \<open>
  What \<open>requests.get\<close> hands back: \<open>status_error\<close> is the text of the
  \<open>HTTPError\<close> that \<open>raise_for_status\<close> raises for an error status (\<open>None\<close> when the
  status is a success), \<open>content\<close> the bytes of the body, \<open>json\<close> the decoded body or
  the text of the decoding error.
\<close>

datatype 'f response =
  Response (status_error: "ustr option") (content: "nat list") (json: "ustr + 'f pyval")

datatype 'f exn =
    HTTPError ustr "'f response"
  | RequestException ustr
  | JSONDecodeError ustr
  | AttributeError
  | IndexError
  | KeyError
  | TypeError
  | ValueError
  | OverflowError
  | OSError

text \<open>\<open>except requests.RequestException\<close>: the class and its subclasses.\<close>

fun is_RequestException :: "'f exn \<Rightarrow> bool" where
  "is_RequestException (HTTPError m r) = True"
| "is_RequestException (RequestException m) = True"
| "is_RequestException (JSONDecodeError m) = True"
| "is_RequestException e = False"

text \<open>A request as \<open>requests.get\<close> receives it, and what comes of it.\<close>

datatype 'f request =
  Request (url: ustr) (params: "(ustr \<times> 'f pyval) list") (timeout: nat)

datatype 'f reply =
    Fails ustr
  | Replies "'f response"

text \<open>
  Everything the program takes from outside itself: the credential read at start-up,
  the network (\<open>Fails m\<close>: \<open>requests.get\<close> raises a \<open>RequestException\<close> whose text is
  \<open>m\<close>, as for a refused connection or a timeout), the interpreter's treatment of
  floats (\<open>str\<close>, truth value, \<open>float\<close> of an integer and of a text, \<open>None\<close> where
  \<open>float\<close> raises), \<open>repr\<close> of a text, the Unicode case tables used by \<open>str.title\<close>
  (the lower-case mapping sees the whole text and the position, as the final sigma
  needs), and whether the imaging library can open a downloaded body.
\<close>

record 'f env =
  api_key :: ustr
  net :: "'f request \<Rightarrow> 'f reply"
  float_str :: "'f \<Rightarrow> ustr"
  float_truthy :: "'f \<Rightarrow> bool"
  float_of_int :: "int \<Rightarrow> 'f option"
  float_of_str :: "ustr \<Rightarrow> 'f option"
  str_repr :: "ustr \<Rightarrow> ustr"
  is_cased :: "nat \<Rightarrow> bool"
  to_title :: "nat \<Rightarrow> ustr"
  lower_at :: "ustr \<Rightarrow> nat \<Rightarrow> ustr"
  image_opens :: "nat list \<Rightarrow> bool"

subsection \<open>Exceptions as values\<close>

definition bnd :: "'e + 'a \<Rightarrow> ('a \<Rightarrow> 'e + 'b) \<Rightarrow> 'e + 'b" where
  "bnd m f = (case m of Inl e \<Rightarrow> Inl e | Inr v \<Rightarrow> f v)"

subsection \<open>Built-in operations the source calls\<close>

text \<open>\<open>x.get(k, d)\<close>: only a dict has the method.\<close>

fun py_get :: "'f pyval \<Rightarrow> ustr \<Rightarrow> 'f pyval \<Rightarrow> 'f exn + 'f pyval" where
  "py_get (PDict kvs) k d = Inr (case map_of kvs k of Some v \<Rightarrow> v | None \<Rightarrow> d)"
| "py_get x k d = Inl AttributeError"

text \<open>\<open>x[0]\<close>: the first element of a list, the first character of a text; a dict with
  text keys has no key \<open>0\<close>; the other values cannot be subscripted.\<close>

fun py_first :: "'f pyval \<Rightarrow> 'f exn + 'f pyval" where
  "py_first (PList []) = Inl IndexError"
| "py_first (PList (x # xs)) = Inr x"
| "py_first (PStr []) = Inl IndexError"
| "py_first (PStr (c # cs)) = Inr (PStr [c])"
| "py_first (PDict kvs) = Inl KeyError"
| "py_first x = Inl TypeError"

text \<open>\<open>x[k]\<close> for a text key \<open>k\<close>.\<close>

fun py_item :: "'f pyval \<Rightarrow> ustr \<Rightarrow> 'f exn + 'f pyval" where
  "py_item (PDict kvs) k = (case map_of kvs k of Some v \<Rightarrow> Inr v | None \<Rightarrow> Inl KeyError)"
| "py_item x k = Inl TypeError"

text \<open>\<open>x[:5]\<close>: lists and texts can be sliced, nothing else among these values.\<close>

fun py_slice5 :: "'f pyval \<Rightarrow> 'f exn + 'f pyval" where
  "py_slice5 (PList xs) = Inr (PList (take 5 xs))"
| "py_slice5 (PStr s) = Inr (PStr (take 5 s))"
| "py_slice5 x = Inl TypeError"

text \<open>The elements a \<open>for\<close> loop visits.\<close>

fun py_iter :: "'f pyval \<Rightarrow> 'f exn + 'f pyval list" where
  "py_iter (PList xs) = Inr xs"
| "py_iter (PStr s) = Inr (map (\<lambda>c. PStr [c]) s)"
| "py_iter (PDict kvs) = Inr (map (\<lambda>kv. PStr (fst kv)) kvs)"
| "py_iter x = Inl TypeError"

text \<open>The truth value of \<open>if x:\<close>.\<close>

fun py_truthy :: "'f env \<Rightarrow> 'f pyval \<Rightarrow> bool" where
  "py_truthy E PNone = False"
| "py_truthy E (PBool b) = b"
| "py_truthy E (PInt i) = (i \<noteq> 0)"
| "py_truthy E (PFloat x) = float_truthy E x"
| "py_truthy E (PStr s) = (s \<noteq> [])"
| "py_truthy E (PList xs) = (xs \<noteq> [])"
| "py_truthy E (PDict kvs) = (kvs \<noteq> [])"

text \<open>\<open>float(x)\<close>.\<close>

fun py_float :: "'f env \<Rightarrow> 'f pyval \<Rightarrow> 'f exn + 'f" where
  "py_float E (PFloat x) = Inr x"
| "py_float E (PInt i) = (case float_of_int E i of Some x \<Rightarrow> Inr x | None \<Rightarrow> Inl OverflowError)"
| "py_float E (PBool b) =
     (case float_of_int E (if b then 1 else 0) of Some x \<Rightarrow> Inr x | None \<Rightarrow> Inl OverflowError)"
| "py_float E (PStr s) = (case float_of_str E s of Some x \<Rightarrow> Inr x | None \<Rightarrow> Inl ValueError)"
| "py_float E x = Inl TypeError"

text \<open>\<open>str.strip()\<close> removes the white space of \<open>str.isspace\<close> at both ends.\<close>

definition isspace :: "nat \<Rightarrow> bool" where
  "isspace c \<longleftrightarrow>
     (9 \<le> c \<and> c \<le> 13) \<or> (28 \<le> c \<and> c \<le> 32) \<or> c = 133 \<or> c = 160 \<or> c = 5760 \<or>
     (8192 \<le> c \<and> c \<le> 8202) \<or> c = 8232 \<or> c = 8233 \<or> c = 8239 \<or> c = 8287 \<or> c = 12288"

definition strip :: "ustr \<Rightarrow> ustr" where
  "strip s = rev (dropWhile isspace (rev (dropWhile isspace s)))"

text \<open>
  \<open>str.title()\<close>: a character after an uncased one is title-cased, a character after a
  cased one is lower-cased. \<open>i\<close> is the position in the whole text \<open>s\<close>.
\<close>

fun title_loop :: "'f env \<Rightarrow> ustr \<Rightarrow> bool \<Rightarrow> nat \<Rightarrow> ustr \<Rightarrow> ustr" where
  "title_loop E s previous_is_cased i [] = []"
| "title_loop E s previous_is_cased i (c # cs) =
     (if previous_is_cased then lower_at E s i else to_title E c)
     @ title_loop E s (is_cased E c) (Suc i) cs"

definition title :: "'f env \<Rightarrow> ustr \<Rightarrow> ustr" where
  "title E s = title_loop E s False 0 s"

text \<open>\<open>x.title()\<close>: only a text has the method.\<close>

fun py_title :: "'f env \<Rightarrow> 'f pyval \<Rightarrow> 'f exn + ustr" where
  "py_title E (PStr s) = Inr (title E s)"
| "py_title E x = Inl AttributeError"

text \<open>Decimal digits of an integer, as \<open>str\<close> prints it.\<close>

fun dec_nat :: "nat \<Rightarrow> ustr" where
  "dec_nat n = (if n < 10 then [48 + n] else dec_nat (n div 10) @ [48 + n mod 10])"

declare dec_nat.simps [simp del]

definition int_str :: "int \<Rightarrow> ustr" where
  "int_str i = (if i < 0 then 45 # dec_nat (nat (- i)) else dec_nat (nat i))"

fun join :: "ustr \<Rightarrow> ustr list \<Rightarrow> ustr" where
  "join sep [] = []"
| "join sep [x] = x"
| "join sep (x # y # ys) = x @ sep @ join sep (y # ys)"

text \<open>\<open>repr(x)\<close>, and \<open>str(x)\<close>, which an f-string and \<open>str.format\<close> apply to a field:
  they differ on a text only.\<close>

fun py_repr :: "'f env \<Rightarrow> 'f pyval \<Rightarrow> ustr" where
  "py_repr E PNone = u ''None''"
| "py_repr E (PBool b) = (if b then u ''True'' else u ''False'')"
| "py_repr E (PInt i) = int_str i"
| "py_repr E (PFloat x) = float_str E x"
| "py_repr E (PStr s) = str_repr E s"
| "py_repr E (PList xs) = u ''['' @ join (u '', '') (map (py_repr E) xs) @ u '']''"
| "py_repr E (PDict kvs) =
     u ''{'' @ join (u '', '') (map (\<lambda>kv. str_repr E (fst kv) @ u '': '' @ py_repr E (snd kv)) kvs)
     @ u ''}''"

fun py_str :: "'f env \<Rightarrow> 'f pyval \<Rightarrow> ustr" where
  "py_str E (PStr s) = s"
| "py_str E x = py_repr E x"

section \<open>The window and the world around it\<close>

text \<open>
  A decoded image: the bytes it was opened from and its size. The forecast area is a
  \<open>tk.Text\<close>: \<open>delete\<close> and \<open>insert\<close> do nothing while its state is \<open>disabled\<close>.
  A modal box is recorded with its title and message.
\<close>

datatype picture =
  Picture (opened_from: "nat list") (width: nat) (height: nat)

record text_widget =
  enabled :: bool
  shown :: ustr

datatype 'f notice =
    Showinfo ustr "'f pyval"
  | Showerror ustr "'f pyval"

text \<open>
  The state of \<open>WeatherApp\<close> (\<open>unit_var\<close> is \<open>self.unit\<close>; a label holds its text, the
  icon label its image, \<open>None\<close> for \<open>image=""\<close>), together with the modal boxes shown
  and the requests sent so far, oldest first.
\<close>

record 'f app =
  city_var :: ustr
  unit_var :: ustr
  city_label :: ustr
  icon_label :: "picture option"
  cond_label :: ustr
  temp_label :: ustr
  detail_label :: ustr
  forecast_text :: text_widget
  icon_img :: "picture option"
  notices :: "'f notice list"
  sent :: "'f request list"

definition showinfo :: "ustr \<Rightarrow> 'f pyval \<Rightarrow> 'f app \<Rightarrow> 'f app" where
  "showinfo t m w = w\<lparr>notices := notices w @ [Showinfo t m]\<rparr>"

definition showerror :: "ustr \<Rightarrow> 'f pyval \<Rightarrow> 'f app \<Rightarrow> 'f app" where
  "showerror t m w = w\<lparr>notices := notices w @ [Showerror t m]\<rparr>"

definition configure_state :: "bool \<Rightarrow> text_widget \<Rightarrow> text_widget" where
  "configure_state b t = t\<lparr>enabled := b\<rparr>"

definition delete_all :: "text_widget \<Rightarrow> text_widget" where
  "delete_all t = (if enabled t then t\<lparr>shown := []\<rparr> else t)"

definition insert_at_start :: "ustr \<Rightarrow> text_widget \<Rightarrow> text_widget" where
  "insert_at_start s t = (if enabled t then t\<lparr>shown := s @ shown t\<rparr> else t)"

subsection \<open>The requests library\<close>

definition requests_get :: "'f env \<Rightarrow> 'f request \<Rightarrow> 'f app \<Rightarrow> ('f exn + 'f response) \<times> 'f app" where
  "requests_get E req w =
     (case net E req of Fails m \<Rightarrow> Inl (RequestException m) | Replies r \<Rightarrow> Inr r,
      w\<lparr>sent := sent w @ [req]\<rparr>)"

definition raise_for_status :: "'f response \<Rightarrow> 'f exn + unit" where
  "raise_for_status r = (case status_error r of None \<Rightarrow> Inr () | Some m \<Rightarrow> Inl (HTTPError m r))"

text \<open>\<open>r.json()\<close>; its decoding error is a \<open>RequestException\<close> (requests 2.27 and later).\<close>

definition response_json :: "'f response \<Rightarrow> 'f exn + 'f pyval" where
  "response_json r = (case json r of Inl m \<Rightarrow> Inl (JSONDecodeError m) | Inr v \<Rightarrow> Inr v)"

text \<open>\<open>str(e)\<close> for the exceptions of the library.\<close>

fun exn_str :: "'f exn \<Rightarrow> ustr" where
  "exn_str (HTTPError m r) = m"
| "exn_str (RequestException m) = m"
| "exn_str (JSONDecodeError m) = m"
| "exn_str e = []"

section \<open>The program\<close>

definition WEATHER_URL :: ustr where
  "WEATHER_URL = u ''https://api.openweathermap.org/data/2.5/weather''"

definition FORECAST_URL :: ustr where
  "FORECAST_URL = u ''https://api.openweathermap.org/data/2.5/forecast''"

text \<open>\<open>ICON_URL.format(icon_code)\<close>.\<close>

definition ICON_URL :: "'f env \<Rightarrow> 'f pyval \<Rightarrow> ustr" where
  "ICON_URL E icon_code =
     u ''http://openweathermap.org/img/wn/'' @ py_str E icon_code @ u ''@2x.png''"

definition fetch_weather ::
  "'f env \<Rightarrow> 'f pyval \<Rightarrow> 'f pyval \<Rightarrow> 'f pyval \<Rightarrow> ustr \<Rightarrow> 'f app \<Rightarrow> ('f exn + 'f pyval) \<times> 'f app" where
  "fetch_weather E q lat lon units w =
     (let params = [(u ''appid'', PStr (api_key E)), (u ''units'', PStr units)];
          params = (if py_truthy E q then params @ [(u ''q'', q)]
                    else params @ [(u ''lat'', lat), (u ''lon'', lon)]);
          (r, w') = requests_get E (Request WEATHER_URL params 10) w
      in (bnd r (\<lambda>r. bnd (raise_for_status r) (\<lambda>_. response_json r)), w'))"

definition fetch_forecast ::
  "'f env \<Rightarrow> 'f pyval \<Rightarrow> 'f pyval \<Rightarrow> 'f pyval \<Rightarrow> ustr \<Rightarrow> 'f app \<Rightarrow> ('f exn + 'f pyval) \<times> 'f app" where
  "fetch_forecast E q lat lon units w =
     (let params = [(u ''appid'', PStr (api_key E)), (u ''units'', PStr units)];
          params = (if py_truthy E q then params @ [(u ''q'', q)]
                    else params @ [(u ''lat'', lat), (u ''lon'', lon)]);
          (r, w') = requests_get E (Request FORECAST_URL params 10) w
      in (bnd r (\<lambda>r. bnd (raise_for_status r) (\<lambda>_. response_json r)), w'))"

text \<open>The body of the \<open>try\<close> of \<open>my_location\<close>, without the request itself.\<close>

definition my_location_try :: "'f env \<Rightarrow> 'f exn + 'f response \<Rightarrow> 'f exn + 'f \<times> 'f" where
  "my_location_try E r =
     bnd r (\<lambda>resp.
     bnd (raise_for_status resp) (\<lambda>_.
     bnd (response_json resp) (\<lambda>data.
     bnd (py_item data (u ''lat'')) (\<lambda>a.
     bnd (py_float E a) (\<lambda>lat.
     bnd (py_item data (u ''lon'')) (\<lambda>b.
     bnd (py_float E b) (\<lambda>lon. Inr (lat, lon))))))))"

definition my_location :: "'f env \<Rightarrow> 'f app \<Rightarrow> ('f pyval \<times> 'f pyval) \<times> 'f app" where
  "my_location E w =
     (let (r, w') = requests_get E (Request (u ''http://ip-api.com/json/'') [] 6) w
      in (case my_location_try E r of
            Inr (lat, lon) \<Rightarrow> (PFloat lat, PFloat lon)
          | Inl e \<Rightarrow> (PNone, PNone),
          w'))"

subsection \<open>\<open>fetch_and_display\<close>, part by part\<close>

text \<open>
  The part \<open># Fill top info\<close> up to \<open>wind\<close>: what is read from the decoded answer,
  in the order of the source. Nothing of the window has changed when one of these raises.
\<close>

definition top_info ::
  "'f env \<Rightarrow> 'f pyval \<Rightarrow>
   'f exn + ('f pyval \<times> 'f pyval \<times> ustr \<times> 'f pyval \<times> 'f pyval \<times> 'f pyval \<times> 'f pyval)" where
  "top_info E data =
     bnd (py_get data (u ''name'') (PStr [])) (\<lambda>name.
     bnd (py_get data (u ''sys'') (PDict [])) (\<lambda>sys.
     bnd (py_get sys (u ''country'') (PStr [])) (\<lambda>country.
     bnd (py_get data (u ''weather'') (PList [PDict []])) (\<lambda>ws.
     bnd (py_first ws) (\<lambda>w0.
     bnd (py_get w0 (u ''description'') (PStr [])) (\<lambda>d.
     bnd (py_title E d) (\<lambda>weather_desc.
     bnd (py_get data (u ''main'') (PDict [])) (\<lambda>m1.
     bnd (py_get m1 (u ''temp'') PNone) (\<lambda>temp.
     bnd (py_get data (u ''main'') (PDict [])) (\<lambda>m2.
     bnd (py_get m2 (u ''feels_like'') PNone) (\<lambda>feels.
     bnd (py_get data (u ''main'') (PDict [])) (\<lambda>m3.
     bnd (py_get m3 (u ''humidity'') PNone) (\<lambda>humidity.
     bnd (py_get data (u ''wind'') (PDict [])) (\<lambda>wd.
     bnd (py_get wd (u ''speed'') PNone) (\<lambda>wind.
     Inr (name, country, weather_desc, temp, feels, humidity, wind))))))))))))))))"

definition units_label_of :: "ustr \<Rightarrow> ustr" where
  "units_label_of units = (if units = u ''metric'' then degree # u ''C'' else degree # u ''F'')"

text \<open>The four \<open>config(text=...)\<close> calls.\<close>

definition show_top_info ::
  "'f env \<Rightarrow> ustr \<Rightarrow>
   ('f pyval \<times> 'f pyval \<times> ustr \<times> 'f pyval \<times> 'f pyval \<times> 'f pyval \<times> 'f pyval) \<Rightarrow> 'f app \<Rightarrow> 'f app" where
  "show_top_info E units_label info w =
     (case info of (name, country, weather_desc, temp, feels, humidity, wind) \<Rightarrow>
        w\<lparr>city_label := py_str E name @ u '', '' @ py_str E country,
          cond_label := weather_desc,
          temp_label := py_str E temp @ u '' '' @ units_label,
          detail_label :=
            u ''Feels like: '' @ py_str E feels @ u '' '' @ units_label
            @ u '' | Humidity: '' @ py_str E humidity @ u ''% | Wind: '' @ py_str E wind
            @ u '' m/s''\<rparr>)"

text \<open>\<open>icon_code = data.get("weather", [{}])[0].get("icon")\<close>.\<close>

definition icon_code_of :: "'f pyval \<Rightarrow> 'f exn + 'f pyval" where
  "icon_code_of data =
     bnd (py_get data (u ''weather'') (PList [PDict []])) (\<lambda>ws.
     bnd (py_first ws) (\<lambda>w0.
     py_get w0 (u ''icon'') PNone))"

text \<open>The \<open>try\<close> under \<open>if icon_code:\<close> with its \<open>except Exception\<close>.\<close>

definition show_icon :: "'f env \<Rightarrow> 'f pyval \<Rightarrow> 'f app \<Rightarrow> 'f app" where
  "show_icon E icon_code w =
     (let (r, w') = requests_get E (Request (ICON_URL E icon_code) [] 8) w;
          pil_img =
            bnd r (\<lambda>img_resp.
            bnd (raise_for_status img_resp) (\<lambda>_.
            if image_opens E (content img_resp)
            then Inr (Picture (content img_resp) 100 100) else Inl OSError))
      in case pil_img of
           Inr img \<Rightarrow> w'\<lparr>icon_label := Some img, icon_img := Some img\<rparr>
         | Inl e \<Rightarrow> w'\<lparr>icon_label := None\<rparr>)"

text \<open>One turn of the loop over \<open>items\<close>: the line added to \<open>text\<close>.\<close>

definition forecast_line :: "'f env \<Rightarrow> ustr \<Rightarrow> 'f pyval \<Rightarrow> 'f exn + ustr" where
  "forecast_line E units_label it =
     bnd (py_get it (u ''dt_txt'') (PStr [emdash])) (\<lambda>dt.
     bnd (py_get it (u ''main'') (PDict [])) (\<lambda>m.
     bnd (py_get m (u ''temp'') (PStr [emdash])) (\<lambda>t.
     bnd (py_get it (u ''weather'') (PList [PDict []])) (\<lambda>ws.
     bnd (py_first ws) (\<lambda>w0.
     bnd (py_get w0 (u ''description'') (PStr [])) (\<lambda>d.
     bnd (py_title E d) (\<lambda>desc.
     Inr (py_str E dt @ [32, emdash, 32] @ py_str E t @ units_label @ [32, emdash, 32]
          @ desc @ [10]))))))))"

fun forecast_loop :: "'f env \<Rightarrow> ustr \<Rightarrow> 'f pyval list \<Rightarrow> ustr \<Rightarrow> 'f exn + ustr" where
  "forecast_loop E units_label [] text = Inr text"
| "forecast_loop E units_label (it # its) text =
     bnd (forecast_line E units_label it) (\<lambda>l. forecast_loop E units_label its (text @ l))"

text \<open>What the \<open>try\<close> of the forecast builds from the decoded answer.\<close>

definition forecast_text_of :: "'f env \<Rightarrow> ustr \<Rightarrow> 'f pyval \<Rightarrow> 'f exn + ustr" where
  "forecast_text_of E units_label fc =
     bnd (py_get fc (u ''list'') (PList [])) (\<lambda>l.
     bnd (py_slice5 l) (\<lambda>items.
     bnd (py_iter items) (\<lambda>its.
     forecast_loop E units_label its [])))"

definition replace_text :: "ustr \<Rightarrow> text_widget \<Rightarrow> text_widget" where
  "replace_text s t =
     configure_state False (insert_at_start s (delete_all (configure_state True t)))"

text \<open>The part \<open># Forecast (short)\<close>: the \<open>try\<close> and its \<open>except Exception\<close>.\<close>

definition show_forecast ::
  "'f env \<Rightarrow> 'f pyval \<Rightarrow> 'f pyval \<Rightarrow> 'f pyval \<Rightarrow> ustr \<Rightarrow> ustr \<Rightarrow> 'f app \<Rightarrow> 'f app" where
  "show_forecast E q lat lon units units_label w =
     (let (r, w') = fetch_forecast E q lat lon units w
      in case bnd r (forecast_text_of E units_label) of
           Inr text \<Rightarrow> w'\<lparr>forecast_text := replace_text text (forecast_text w')\<rparr>
         | Inl e \<Rightarrow>
             w'\<lparr>forecast_text := replace_text (u ''No forecast available.'') (forecast_text w')\<rparr>)"

text \<open>The message of the \<open>API error\<close> box.\<close>

definition api_error_msg :: "ustr \<Rightarrow> 'f response \<Rightarrow> 'f pyval" where
  "api_error_msg m resp =
     (case bnd (response_json resp) (\<lambda>j. py_get j (u ''message'') (PStr m)) of
        Inr msg \<Rightarrow> msg
      | Inl e \<Rightarrow> PStr m)"

text \<open>
  The whole handler. The result is \<open>Inr ()\<close> when it returns and \<open>Inl e\<close> when \<open>e\<close>
  leaves it uncaught; the state is the one at that moment.
\<close>

definition fetch_and_display ::
  "'f env \<Rightarrow> 'f pyval \<Rightarrow> 'f pyval \<Rightarrow> 'f pyval \<Rightarrow> 'f app \<Rightarrow> ('f exn + unit) \<times> 'f app" where
  "fetch_and_display E q lat lon w =
     (let units = unit_var w;
          (r, w1) = fetch_weather E q lat lon units w
      in case r of
           Inl (HTTPError m resp) \<Rightarrow> (Inr (), showerror (u ''API error'') (api_error_msg m resp) w1)
         | Inl e \<Rightarrow>
             (if is_RequestException e
              then (Inr (), showerror (u ''Network error'') (PStr (exn_str e)) w1)
              else (Inl e, w1))
         | Inr data \<Rightarrow>
             (case top_info E data of
                Inl e \<Rightarrow> (Inl e, w1)
              | Inr info \<Rightarrow>
                  let units_label = units_label_of units;
                      w2 = show_top_info E units_label info w1
                  in (case icon_code_of data of
                        Inl e \<Rightarrow> (Inl e, w2)
                      | Inr icon_code \<Rightarrow>
                          let w3 = (if py_truthy E icon_code then show_icon E icon_code w2 else w2)
                          in (Inr (), show_forecast E q lat lon units units_label w3))))"

definition on_get_weather :: "'f env \<Rightarrow> 'f app \<Rightarrow> ('f exn + unit) \<times> 'f app" where
  "on_get_weather E w =
     (let q = strip (city_var w)
      in if q = []
         then (Inr (), showinfo (u ''Input needed'')
                         (PStr (u ''Enter a city name or click Use My Location.'')) w)
         else fetch_and_display E (PStr q) PNone PNone w)"

definition on_use_location :: "'f env \<Rightarrow> 'f app \<Rightarrow> ('f exn + unit) \<times> 'f app" where
  "on_use_location E w =
     (let ((lat, lon), w') = my_location E w
      in if lat = PNone
         then (Inr (), showerror (u ''Location failed'')
                         (PStr (u ''Could not detect location via IP.'')) w')
         else fetch_and_display E PNone lat lon w')"

section \<open>What the claims speak of\<close>

text \<open>
  The parameters both \<open>fetch_weather\<close> and \<open>fetch_forecast\<close> build, and the request each
  of them sends; \<open>fetched\<close> is what either returns for the reply it gets.
\<close>

definition location_params ::
  "'f env \<Rightarrow> 'f pyval \<Rightarrow> 'f pyval \<Rightarrow> 'f pyval \<Rightarrow> ustr \<Rightarrow> (ustr \<times> 'f pyval) list" where
  "location_params E q lat lon units =
     [(u ''appid'', PStr (api_key E)), (u ''units'', PStr units)]
     @ (if py_truthy E q then [(u ''q'', q)] else [(u ''lat'', lat), (u ''lon'', lon)])"

definition weather_request :: "'f env \<Rightarrow> 'f pyval \<Rightarrow> 'f pyval \<Rightarrow> 'f pyval \<Rightarrow> ustr \<Rightarrow> 'f request" where
  "weather_request E q lat lon units = Request WEATHER_URL (location_params E q lat lon units) 10"

definition forecast_request :: "'f env \<Rightarrow> 'f pyval \<Rightarrow> 'f pyval \<Rightarrow> 'f pyval \<Rightarrow> ustr \<Rightarrow> 'f request" where
  "forecast_request E q lat lon units = Request FORECAST_URL (location_params E q lat lon units) 10"

definition location_request :: "'f request" where
  "location_request = Request (u ''http://ip-api.com/json/'') [] 6"

definition fetched :: "'f reply \<Rightarrow> 'f exn + 'f pyval" where
  "fetched rp =
     (case rp of
        Fails m \<Rightarrow> Inl (RequestException m)
      | Replies r \<Rightarrow> bnd (raise_for_status r) (\<lambda>_. response_json r))"

text \<open>The parameters name the place by \<open>q\<close> alone, or by \<open>lat\<close> and \<open>lon\<close> alone.\<close>

definition names_place_once :: "(ustr \<times> 'f pyval) list \<Rightarrow> bool" where
  "names_place_once p \<longleftrightarrow>
     (let ks = map fst p
      in (u ''q'' \<in> set ks) \<noteq> (u ''lat'' \<in> set ks \<and> u ''lon'' \<in> set ks)
         \<and> (u ''q'' \<in> set ks) \<noteq> (u ''lat'' \<in> set ks \<or> u ''lon'' \<in> set ks))"

text \<open>What the \<open>try\<close> of \<open>my_location\<close> comes to in an environment.\<close>

definition located :: "'f env \<Rightarrow> 'f exn + 'f \<times> 'f" where
  "located E =
     my_location_try E
       (case net E location_request of Fails m \<Rightarrow> Inl (RequestException m) | Replies r \<Rightarrow> Inr r)"

text \<open>
  The failures of the device lookup that the specification lists: no answer (network
  error, time-out), an error status, a body that is not JSON or not an object, an object
  without \<open>lat\<close> or without \<open>lon\<close>.
\<close>

definition lookup_fails :: "'f env \<Rightarrow> bool" where
  "lookup_fails E =
     (case net E location_request of
        Fails m \<Rightarrow> True
      | Replies r \<Rightarrow>
          (case status_error r of
             Some m \<Rightarrow> True
           | None \<Rightarrow>
               (case json r of
                  Inl m \<Rightarrow> True
                | Inr (PDict kvs) \<Rightarrow> map_of kvs (u ''lat'') = None \<or> map_of kvs (u ''lon'') = None
                | Inr v \<Rightarrow> True)))"

text \<open>A member of an object that is missing or is itself an object.\<close>

definition dict_or_missing :: "(ustr \<times> 'f pyval) list \<Rightarrow> ustr \<Rightarrow> bool" where
  "dict_or_missing kvs k =
     (case map_of kvs k of None \<Rightarrow> True | Some (PDict d) \<Rightarrow> True | Some v \<Rightarrow> False)"

text \<open>
  A forecast entry that the loop can render: an object whose \<open>main\<close> is missing or an
  object, whose \<open>weather\<close> is missing or a list that starts with an object, the
  \<open>description\<close> of which is missing or a text.
\<close>

fun entry_ok :: "'f pyval \<Rightarrow> bool" where
  "entry_ok (PDict kvs) =
     (dict_or_missing kvs (u ''main'') \<and>
      (case map_of kvs (u ''weather'') of
         None \<Rightarrow> True
       | Some (PList (PDict wk # ws)) \<Rightarrow>
           (case map_of wk (u ''description'') of
              None \<Rightarrow> True | Some (PStr d) \<Rightarrow> True | Some v \<Rightarrow> False)
       | Some v \<Rightarrow> False))"
| "entry_ok x = False"

text \<open>
  The line of the specification for such an entry: time stamp, em dash, temperature and
  unit suffix, em dash, capitalised description, each field with the default the source
  gives it.
\<close>

definition member_or :: "(ustr \<times> 'f pyval) list \<Rightarrow> ustr \<Rightarrow> 'f pyval \<Rightarrow> 'f pyval" where
  "member_or kvs k d = (case map_of kvs k of Some v \<Rightarrow> v | None \<Rightarrow> d)"

fun entry_timestamp :: "'f pyval \<Rightarrow> 'f pyval" where
  "entry_timestamp (PDict kvs) = member_or kvs (u ''dt_txt'') (PStr [emdash])"
| "entry_timestamp x = PStr [emdash]"

fun entry_temperature :: "'f pyval \<Rightarrow> 'f pyval" where
  "entry_temperature (PDict kvs) =
     (case map_of kvs (u ''main'') of
        Some (PDict m) \<Rightarrow> member_or m (u ''temp'') (PStr [emdash])
      | other \<Rightarrow> PStr [emdash])"
| "entry_temperature x = PStr [emdash]"

fun entry_description :: "'f pyval \<Rightarrow> ustr" where
  "entry_description (PDict kvs) =
     (case map_of kvs (u ''weather'') of
        Some (PList (PDict wk # ws)) \<Rightarrow>
          (case map_of wk (u ''description'') of Some (PStr d) \<Rightarrow> d | other \<Rightarrow> [])
      | other \<Rightarrow> [])"
| "entry_description x = []"

definition entry_line :: "'f env \<Rightarrow> ustr \<Rightarrow> 'f pyval \<Rightarrow> ustr" where
  "entry_line E suffix it =
     py_str E (entry_timestamp it) @ [32, emdash, 32] @ py_str E (entry_temperature it) @ suffix
     @ [32, emdash, 32] @ title E (entry_description it) @ [10]"

subsection \<open>A small environment and window for the closed instances\<close>

text \<open>
  Floats are carried as the text they print as, the case tables cover the ASCII letters,
  an image opens when its body is not empty. The network is given per instance, by the
  replies of the three kinds of address.
\<close>

definition ascii_cased :: "nat \<Rightarrow> bool" where
  "ascii_cased c \<longleftrightarrow> (65 \<le> c \<and> c \<le> 90) \<or> (97 \<le> c \<and> c \<le> 122)"

definition ascii_title :: "nat \<Rightarrow> ustr" where
  "ascii_title c = (if 97 \<le> c \<and> c \<le> 122 then [c - 32] else [c])"

definition ascii_lower_at :: "ustr \<Rightarrow> nat \<Rightarrow> ustr" where
  "ascii_lower_at s i = (let c = s ! i in if 65 \<le> c \<and> c \<le> 90 then [c + 32] else [c])"

definition demo_net :: "ustr reply \<Rightarrow> ustr reply \<Rightarrow> ustr reply \<Rightarrow> ustr request \<Rightarrow> ustr reply" where
  "demo_net weather forecast other req =
     (if url req = WEATHER_URL then weather
      else if url req = FORECAST_URL then forecast
      else other)"

definition demo_env :: "(ustr request \<Rightarrow> ustr reply) \<Rightarrow> ustr env" where
  "demo_env n =
     \<lparr>api_key = u ''key'', net = n, float_str = (\<lambda>x. x), float_truthy = (\<lambda>x. x \<noteq> u ''0.0''),
      float_of_int = (\<lambda>i. Some (int_str i @ u ''.0'')), float_of_str = (\<lambda>s. Some s),
      str_repr = (\<lambda>s. [39] @ s @ [39]), is_cased = ascii_cased, to_title = ascii_title,
      lower_at = ascii_lower_at, image_opens = (\<lambda>b. b \<noteq> [])\<rparr>"

definition ok_json :: "'f pyval \<Rightarrow> 'f reply" where
  "ok_json v = Replies (Response None [] (Inr v))"

text \<open>An answer of the provider for current conditions, as the specification's scenario has it.\<close>

definition bengaluru :: "ustr pyval" where
  "bengaluru =
     PDict [(u ''name'', PStr (u ''Bengaluru'')),
            (u ''sys'', PDict [(u ''country'', PStr (u ''IN''))]),
            (u ''weather'', PList [PDict [(u ''description'', PStr (u ''clear sky'')),
                                          (u ''icon'', PStr (u ''01d''))]]),
            (u ''main'', PDict [(u ''temp'', PFloat (u ''27.5'')),
                                (u ''feels_like'', PFloat (u ''29.1'')),
                                (u ''humidity'', PInt 70)]),
            (u ''wind'', PDict [(u ''speed'', PFloat (u ''3.1''))])]"

text \<open>
  The environment in which the provider answers the current-conditions request with the
  JSON value \<open>v\<close> and the forecast request with \<open>f\<close>, and no other address answers.
\<close>

definition provider :: "ustr pyval \<Rightarrow> ustr reply \<Rightarrow> ustr env" where
  "provider v f = demo_env (demo_net (ok_json v) f (Fails (u ''unreachable'')))"

text \<open>The window as \<open>create_widgets\<close> leaves it.\<close>

definition new_app :: "'f app" where
  "new_app =
     \<lparr>city_var = u ''Bengaluru'', unit_var = u ''metric'', city_label = [], icon_label = None,
      cond_label = [], temp_label = [], detail_label = [],
      forecast_text = \<lparr>enabled = False, shown = []\<rparr>, icon_img = None, notices = [], sent = []\<rparr>"

section \<open>Facts about the parts\<close>

lemma bnd_Inl [simp]: "bnd (Inl e) f = Inl e"
  by (simp add: bnd_def)

lemma bnd_Inr [simp]: "bnd (Inr v) f = f v"
  by (simp add: bnd_def)

lemma fetch_weather_eq:
  "fetch_weather E q lat lon units w =
     (fetched (net E (weather_request E q lat lon units)),
      w\<lparr>sent := sent w @ [weather_request E q lat lon units]\<rparr>)"
  by (simp add: fetch_weather_def weather_request_def location_params_def requests_get_def
      fetched_def Let_def split: reply.splits)

lemma fetch_forecast_eq:
  "fetch_forecast E q lat lon units w =
     (fetched (net E (forecast_request E q lat lon units)),
      w\<lparr>sent := sent w @ [forecast_request E q lat lon units]\<rparr>)"
  by (simp add: fetch_forecast_def forecast_request_def location_params_def requests_get_def
      fetched_def Let_def split: reply.splits)

lemma strip_all_space: "list_all isspace s \<Longrightarrow> strip s = []"
proof -
  assume "list_all isspace s"
  then have "dropWhile isspace s = []"
    by (simp add: dropWhile_eq_Nil_conv list_all_iff)
  then show ?thesis
    by (simp only: strip_def rev.simps dropWhile.simps)
qed

lemma api_error_msg_eq:
  "api_error_msg m resp =
     (case json resp of
        Inr (PDict kvs) \<Rightarrow> (case map_of kvs (u ''message'') of Some v \<Rightarrow> v | None \<Rightarrow> PStr m)
      | other \<Rightarrow> PStr m)"
  by (simp add: api_error_msg_def response_json_def split: sum.splits pyval.splits option.splits)

lemma my_location_eq:
  "my_location E w =
     (case located E of Inr (lat, lon) \<Rightarrow> (PFloat lat, PFloat lon) | Inl e \<Rightarrow> (PNone, PNone),
      w\<lparr>sent := sent w @ [location_request]\<rparr>)"
  by (simp add: my_location_def located_def requests_get_def location_request_def)

lemma isl_bnd_Inl: "isl (bnd m (\<lambda>x. Inl e))"
  by (cases m) simp_all

lemma lookup_fails_located: "lookup_fails E \<Longrightarrow> isl (located E)"
  by (auto simp: isl_bnd_Inl lookup_fails_def located_def my_location_try_def raise_for_status_def
      response_json_def split: reply.splits option.splits sum.splits pyval.splits)

lemma bnd_InrE:
  assumes "bnd m f = Inr y"
  obtains v where "m = Inr v" and "f v = Inr y"
  using assms by (cases m) simp_all

lemma py_get_dict: "py_get (PDict kvs) k d = Inr (member_or kvs k d)"
  by (simp add: member_or_def)

lemma py_get_InrE:
  assumes "py_get x k d = Inr v"
  obtains kvs where "x = PDict kvs" and "v = member_or kvs k d"
  using assms by (cases x) (simp_all add: member_or_def)

lemma member_or_dict:
  assumes "dict_or_missing kvs k"
  obtains d where "member_or kvs k (PDict []) = PDict d"
  using assms by (auto simp: dict_or_missing_def member_or_def split: option.splits pyval.splits)

lemma replace_text_eq: "replace_text s t = \<lparr>enabled = False, shown = s\<rparr>"
  by (cases t) (simp add: replace_text_def configure_state_def delete_all_def insert_at_start_def)

lemma show_forecast_eq:
  "show_forecast E q lat lon units suffix s =
     s\<lparr>sent := sent s @ [forecast_request E q lat lon units],
       forecast_text :=
         \<lparr>enabled = False,
          shown = (case bnd (fetched (net E (forecast_request E q lat lon units)))
                          (forecast_text_of E suffix) of
                     Inr text \<Rightarrow> text
                   | Inl e \<Rightarrow> u ''No forecast available.'')\<rparr>\<rparr>"
  by (simp add: show_forecast_def fetch_forecast_eq replace_text_eq split: sum.splits)

text \<open>The icon step touches the icon label, the kept image and the list of requests only.\<close>

lemma show_icon_frame:
  "city_label (show_icon E c s) = city_label s"
  "cond_label (show_icon E c s) = cond_label s"
  "temp_label (show_icon E c s) = temp_label s"
  "detail_label (show_icon E c s) = detail_label s"
  "forecast_text (show_icon E c s) = forecast_text s"
  "notices (show_icon E c s) = notices s"
  "city_var (show_icon E c s) = city_var s"
  "unit_var (show_icon E c s) = unit_var s"
  "sent (show_icon E c s) = sent s @ [Request (ICON_URL E c) [] 8]"
  by (simp_all add: show_icon_def requests_get_def Let_def split: sum.splits)

lemma top_info_icon_code:
  assumes "top_info E data = Inr info"
  obtains c where "icon_code_of data = Inr c"
proof -
  from assms obtain ws w0 d where ws: "py_get data (u ''weather'') (PList [PDict []]) = Inr ws"
    and w0: "py_first ws = Inr w0" and d: "py_get w0 (u ''description'') (PStr []) = Inr d"
    unfolding top_info_def by (elim bnd_InrE) blast
  from d obtain wk where "w0 = PDict wk"
    by (rule py_get_InrE)
  with ws w0 have "icon_code_of data = Inr (member_or wk (u ''icon'') PNone)"
    by (simp add: icon_code_of_def member_or_def)
  then show thesis ..
qed

text \<open>What \<open>fetch_and_display\<close> does once the top information has been read.\<close>

lemma fetch_and_display_shown:
  assumes "fetched (net E (weather_request E q lat lon (unit_var w))) = Inr data"
    and "top_info E data = Inr info"
    and "icon_code_of data = Inr c"
  shows "fetch_and_display E q lat lon w =
     (Inr (),
      show_forecast E q lat lon (unit_var w) (units_label_of (unit_var w))
        (let w2 = show_top_info E (units_label_of (unit_var w)) info
                    (w\<lparr>sent := sent w @ [weather_request E q lat lon (unit_var w)]\<rparr>)
         in if py_truthy E c then show_icon E c w2 else w2))"
  using assms by (simp add: fetch_and_display_def fetch_weather_eq Let_def)

lemma fetch_and_display_raises:
  assumes "fetched (net E (weather_request E q lat lon (unit_var w))) = Inr data"
    and "top_info E data = Inl e"
  shows "fetch_and_display E q lat lon w =
     (Inl e, w\<lparr>sent := sent w @ [weather_request E q lat lon (unit_var w)]\<rparr>)"
  using assms by (simp add: fetch_and_display_def fetch_weather_eq Let_def)

lemma show_top_info_fields:
  "city_label (show_top_info E suffix (name, country, weather_desc, temp, feels, humidity, wind) s) =
     py_str E name @ u '', '' @ py_str E country"
  "cond_label (show_top_info E suffix (name, country, weather_desc, temp, feels, humidity, wind) s) =
     weather_desc"
  "temp_label (show_top_info E suffix (name, country, weather_desc, temp, feels, humidity, wind) s) =
     py_str E temp @ u '' '' @ suffix"
  "detail_label (show_top_info E suffix (name, country, weather_desc, temp, feels, humidity, wind) s) =
     u ''Feels like: '' @ py_str E feels @ u '' '' @ suffix @ u '' | Humidity: ''
     @ py_str E humidity @ u ''% | Wind: '' @ py_str E wind @ u '' m/s''"
  "icon_label (show_top_info E suffix info s) = icon_label s"
  "icon_img (show_top_info E suffix info s) = icon_img s"
  "forecast_text (show_top_info E suffix info s) = forecast_text s"
  "notices (show_top_info E suffix info s) = notices s"
  "sent (show_top_info E suffix info s) = sent s"
  "city_var (show_top_info E suffix info s) = city_var s"
  "unit_var (show_top_info E suffix info s) = unit_var s"
  by (simp_all add: show_top_info_def split: prod.splits)

lemma top_info_no_weather:
  assumes "map_of kvs (u ''weather'') = None"
    and "dict_or_missing kvs (u ''sys'')"
    and "dict_or_missing kvs (u ''main'')"
    and "dict_or_missing kvs (u ''wind'')"
  obtains name country temp feels humidity wind
  where "top_info E (PDict kvs) = Inr (name, country, [], temp, feels, humidity, wind)"
proof -
  from assms(2) obtain sd where sd: "member_or kvs (u ''sys'') (PDict []) = PDict sd"
    by (rule member_or_dict)
  from assms(3) obtain md where md: "member_or kvs (u ''main'') (PDict []) = PDict md"
    by (rule member_or_dict)
  from assms(4) obtain wd where wd: "member_or kvs (u ''wind'') (PDict []) = PDict wd"
    by (rule member_or_dict)
  have ws: "member_or kvs (u ''weather'') (PList [PDict []]) = PList [PDict []]"
    using assms(1) by (simp add: member_or_def)
  have "top_info E (PDict kvs) =
      Inr (member_or kvs (u ''name'') (PStr []), member_or sd (u ''country'') (PStr []), [],
           member_or md (u ''temp'') PNone, member_or md (u ''feels_like'') PNone,
           member_or md (u ''humidity'') PNone, member_or wd (u ''speed'') PNone)"
    unfolding top_info_def
    by (simp add: py_get_dict sd md wd ws title_def member_or_def [of "[]"] del: py_get.simps(1))
  then show thesis ..
qed

lemma icon_code_no_weather:
  assumes "map_of kvs (u ''weather'') = None"
  shows "icon_code_of (PDict kvs) = Inr PNone"
  using assms by (simp add: icon_code_of_def)

lemma top_info_empty_weather:
  assumes "map_of kvs (u ''weather'') = Some (PList [])"
  shows "top_info E (PDict kvs) =
     (case member_or kvs (u ''sys'') (PDict []) of
        PDict sd \<Rightarrow> Inl IndexError
      | other \<Rightarrow> Inl AttributeError)"
  unfolding top_info_def
  by (simp add: py_get_dict member_or_def [of kvs "u ''weather''"] assms del: py_get.simps(1)
      split: pyval.splits)

lemma py_first_dictE:
  assumes "py_first ws = Inr (PDict wk)"
  obtains xs where "ws = PList (PDict wk # xs)"
  using assms by (cases ws rule: py_first.cases) simp_all

lemma top_info_needs_weather:
  assumes "top_info E data = Inr info"
  obtains kvs where "data = PDict kvs"
    and "map_of kvs (u ''weather'') = None \<or>
         (\<exists>x xs. map_of kvs (u ''weather'') = Some (PList (x # xs)))"
proof -
  from assms obtain name ws w0 d
    where name: "py_get data (u ''name'') (PStr []) = Inr name"
      and ws: "py_get data (u ''weather'') (PList [PDict []]) = Inr ws"
      and w0: "py_first ws = Inr w0"
      and d: "py_get w0 (u ''description'') (PStr []) = Inr d"
    unfolding top_info_def by (elim bnd_InrE) blast
  from name obtain kvs where kvs: "data = PDict kvs"
    by (rule py_get_InrE)
  from d obtain wk where "w0 = PDict wk"
    by (rule py_get_InrE)
  with w0 obtain xs where xs: "ws = PList (PDict wk # xs)"
    by (auto elim: py_first_dictE)
  from ws kvs xs have "member_or kvs (u ''weather'') (PList [PDict []]) = PList (PDict wk # xs)"
    by (simp add: member_or_def)
  then have "map_of kvs (u ''weather'') = None \<or>
         (\<exists>x xs. map_of kvs (u ''weather'') = Some (PList (x # xs)))"
    by (auto simp: member_or_def split: option.splits)
  with kvs show thesis ..
qed

lemma forecast_line_empty_weather:
  assumes "map_of ikvs (u ''weather'') = Some (PList [])"
  shows "forecast_line E suffix (PDict ikvs) =
     (case member_or ikvs (u ''main'') (PDict []) of
        PDict md \<Rightarrow> Inl IndexError
      | other \<Rightarrow> Inl AttributeError)"
  unfolding forecast_line_def
  by (simp add: py_get_dict member_or_def [of ikvs "u ''weather''"] assms del: py_get.simps(1)
      split: pyval.splits)

lemma forecast_loop_raises:
  assumes "\<exists>it \<in> set its. isl (forecast_line E suffix it)"
  shows "isl (forecast_loop E suffix its acc)"
  using assms
proof (induction its arbitrary: acc)
  case Nil
  then show ?case by simp
next
  case (Cons it its)
  show ?case
  proof (cases "forecast_line E suffix it")
    case (Inl e)
    then show ?thesis by simp
  next
    case (Inr l)
    with Cons.prems have "\<exists>it \<in> set its. isl (forecast_line E suffix it)"
      by auto
    then have "isl (forecast_loop E suffix its (acc @ l))"
      by (rule Cons.IH)
    with Inr show ?thesis by simp
  qed
qed

lemma forecast_line_ok:
  assumes "entry_ok it"
  shows "forecast_line E suffix it = Inr (entry_line E suffix it)"
proof -
  from assms obtain kvs where it: "it = PDict kvs"
    by (cases it) simp_all
  from assms it obtain md where md: "member_or kvs (u ''main'') (PDict []) = PDict md"
    by (auto elim: member_or_dict)
  have t: "entry_temperature (PDict kvs) = member_or md (u ''temp'') (PStr [emdash])"
    using md by (auto simp: member_or_def split: option.splits pyval.splits)
  have "\<exists>wk ws. member_or kvs (u ''weather'') (PList [PDict []]) = PList (PDict wk # ws) \<and>
          py_title E (member_or wk (u ''description'') (PStr [])) =
            Inr (title E (entry_description (PDict kvs)))"
    using assms it
    by (auto simp: member_or_def split: option.splits pyval.splits list.splits)
  then obtain wk ws
    where ws: "member_or kvs (u ''weather'') (PList [PDict []]) = PList (PDict wk # ws)"
      and d: "py_title E (member_or wk (u ''description'') (PStr [])) =
                Inr (title E (entry_description (PDict kvs)))"
    by blast
  show ?thesis
    unfolding forecast_line_def entry_line_def it
    by (simp add: py_get_dict md ws d t
        del: py_get.simps(1) entry_temperature.simps entry_description.simps)
qed

lemma forecast_loop_ok:
  assumes "list_all entry_ok its"
  shows "forecast_loop E suffix its acc = Inr (acc @ concat (map (entry_line E suffix) its))"
  using assms by (induction its arbitrary: acc) (simp_all add: forecast_line_ok)

section \<open>The claims\<close>

text \<open>
  C4. When the text of the entry is empty or only white space, \<open>on_get_weather\<close> returns
  with the window and the list of requests sent as they were, but for one information
  box titled \<open>Input needed\<close>: no request goes to any address and no region changes.
\<close>

theorem C4_blank_input_is_rejected:
  assumes "list_all isspace (city_var w)"
  shows "on_get_weather E w =
     (Inr (), w\<lparr>notices := notices w @
        [Showinfo (u ''Input needed'') (PStr (u ''Enter a city name or click Use My Location.''))]\<rparr>)"
  using assms by (simp add: on_get_weather_def strip_all_space showinfo_def)

theorem C4_blank_input_witness:
  "list_all isspace (city_var (new_app\<lparr>city_var := [32, 9, 32]\<rparr> :: ustr app)) \<and>
   on_get_weather (demo_env (\<lambda>r. Fails [])) (new_app\<lparr>city_var := [32, 9, 32]\<rparr>) =
     (Inr (), new_app\<lparr>city_var := [32, 9, 32], notices :=
        [Showinfo (u ''Input needed'') (PStr (u ''Enter a city name or click Use My Location.''))]\<rparr>)"
proof -
  have h: "list_all isspace (city_var (new_app\<lparr>city_var := [32, 9, 32]\<rparr> :: ustr app))"
    by (simp add: isspace_def)
  show ?thesis
    using h C4_blank_input_is_rejected [OF h, of "demo_env (\<lambda>r. Fails [])"]
    by (simp add: new_app_def)
qed

text \<open>
  C3. When the current-conditions request is answered with an error status (so that
  \<open>raise_for_status\<close> raises \<open>HTTPError\<close>, whose text is \<open>m\<close>), \<open>fetch_and_display\<close>
  returns after one error box titled \<open>API error\<close>. Its message is the \<open>message\<close> member of
  the body when the body is a JSON object that has one, and the text of the exception
  otherwise. Nothing else changes but the record of the one request sent.
\<close>

theorem C3_error_status_notice:
  assumes "net E (weather_request E q lat lon (unit_var w)) = Replies resp"
    and "status_error resp = Some m"
  shows "fetch_and_display E q lat lon w =
     (Inr (), w\<lparr>sent := sent w @ [weather_request E q lat lon (unit_var w)],
               notices := notices w @ [Showerror (u ''API error'')
                 (case json resp of
                    Inr (PDict kvs) \<Rightarrow>
                      (case map_of kvs (u ''message'') of Some v \<Rightarrow> v | None \<Rightarrow> PStr m)
                  | other \<Rightarrow> PStr m)]\<rparr>)"
proof -
  have f: "fetched (net E (weather_request E q lat lon (unit_var w))) = Inl (HTTPError m resp)"
    using assms by (simp add: fetched_def raise_for_status_def)
  show ?thesis
    by (simp add: fetch_and_display_def fetch_weather_eq f api_error_msg_eq showerror_def Let_def)
qed

theorem C3_error_status_witness:
  "fetch_and_display
     (demo_env (\<lambda>r. Replies (Response (Some (u ''404 Client Error'')) []
        (Inr (PDict [(u ''cod'', PStr (u ''404'')), (u ''message'', PStr (u ''city not found''))])))))
     (PStr (u ''Nowhere'')) PNone PNone new_app =
   (Inr (), new_app\<lparr>sent :=
        [Request WEATHER_URL
           [(u ''appid'', PStr (u ''key'')), (u ''units'', PStr (u ''metric'')),
            (u ''q'', PStr (u ''Nowhere''))] 10],
      notices := [Showerror (u ''API error'') (PStr (u ''city not found''))]\<rparr>)"
  using C3_error_status_notice [of
      "demo_env (\<lambda>r. Replies (Response (Some (u ''404 Client Error'')) []
        (Inr (PDict [(u ''cod'', PStr (u ''404'')), (u ''message'', PStr (u ''city not found''))]))))"
      "PStr (u ''Nowhere'')" PNone PNone new_app _ "u ''404 Client Error''"]
  by (simp add: demo_env_def new_app_def weather_request_def location_params_def u_def)

text \<open>
  C8. \<open>fetch_weather\<close> and \<open>fetch_forecast\<close> each send exactly one request. Its
  parameters hold the credential under \<open>appid\<close> and the unit system under \<open>units\<close>, and
  then either \<open>q\<close> alone or \<open>lat\<close> and \<open>lon\<close> alone, never a mixture: \<open>q\<close> when the
  argument \<open>q\<close> is true in the sense of \<open>if q:\<close>, and the two coordinates as passed
  otherwise.
\<close>

theorem C8_one_location_parameter_set:
  "sent (snd (fetch_weather E q lat lon units w)) =
     sent w @ [Request WEATHER_URL (location_params E q lat lon units) 10] \<and>
   sent (snd (fetch_forecast E q lat lon units w)) =
     sent w @ [Request FORECAST_URL (location_params E q lat lon units) 10] \<and>
   map_of (location_params E q lat lon units) (u ''appid'') = Some (PStr (api_key E)) \<and>
   map_of (location_params E q lat lon units) (u ''units'') = Some (PStr units) \<and>
   (map fst (location_params E q lat lon units) = [u ''appid'', u ''units'', u ''q''] \<or>
    map fst (location_params E q lat lon units) = [u ''appid'', u ''units'', u ''lat'', u ''lon'']) \<and>
   names_place_once (location_params E q lat lon units) \<and>
   (py_truthy E q \<longrightarrow> map_of (location_params E q lat lon units) (u ''q'') = Some q) \<and>
   (\<not> py_truthy E q \<longrightarrow>
      map_of (location_params E q lat lon units) (u ''lat'') = Some lat \<and>
      map_of (location_params E q lat lon units) (u ''lon'') = Some lon)"
proof -
  have sent_w: "sent (snd (fetch_weather E q lat lon units w)) =
      sent w @ [Request WEATHER_URL (location_params E q lat lon units) 10]"
    by (simp add: fetch_weather_eq weather_request_def)
  have sent_f: "sent (snd (fetch_forecast E q lat lon units w)) =
      sent w @ [Request FORECAST_URL (location_params E q lat lon units) 10]"
    by (simp add: fetch_forecast_eq forecast_request_def)
  have keys: "map_of (location_params E q lat lon units) (u ''appid'') = Some (PStr (api_key E))"
    "map_of (location_params E q lat lon units) (u ''units'') = Some (PStr units)"
    by (simp_all add: location_params_def u_def)
  have place: "map fst (location_params E q lat lon units) = [u ''appid'', u ''units'', u ''q''] \<or>
    map fst (location_params E q lat lon units) = [u ''appid'', u ''units'', u ''lat'', u ''lon'']"
    by (simp add: location_params_def)
  have once: "names_place_once (location_params E q lat lon units)"
    by (simp add: names_place_once_def location_params_def u_def)
  have vals: "py_truthy E q \<longrightarrow> map_of (location_params E q lat lon units) (u ''q'') = Some q"
    "\<not> py_truthy E q \<longrightarrow>
      map_of (location_params E q lat lon units) (u ''lat'') = Some lat \<and>
      map_of (location_params E q lat lon units) (u ''lon'') = Some lon"
    by (simp_all add: location_params_def u_def)
  from sent_w sent_f keys place once vals show ?thesis
    by blast
qed

theorem C8_parameter_set_witness:
  "params (last (sent (snd (fetch_weather (demo_env (\<lambda>r. Fails [])) (PStr (u ''Pune'')) PNone PNone
      (u ''metric'') new_app)))) =
     [(u ''appid'', PStr (u ''key'')), (u ''units'', PStr (u ''metric'')), (u ''q'', PStr (u ''Pune''))] \<and>
   params (last (sent (snd (fetch_forecast (demo_env (\<lambda>r. Fails [])) (PStr (u ''Pune'')) PNone PNone
      (u ''metric'') new_app)))) =
     [(u ''appid'', PStr (u ''key'')), (u ''units'', PStr (u ''metric'')), (u ''q'', PStr (u ''Pune''))]"
  using C8_one_location_parameter_set [of "demo_env (\<lambda>r. Fails [])" "PStr (u ''Pune'')" PNone PNone
      "u ''metric''" new_app]
  by (simp add: location_params_def demo_env_def u_def)

text \<open>
  C9. Each failure of the device lookup that the specification lists makes the \<open>try\<close> of
  \<open>my_location\<close> raise. Whenever it raises, whatever the exception, \<open>my_location\<close>
  returns the pair of \<open>None\<close>, and \<open>on_use_location\<close> returns after one error box titled
  \<open>Location failed\<close>: the only request sent is the lookup itself, and no region changes.
\<close>

theorem C9_location_failure:
  "(lookup_fails E \<longrightarrow> isl (located E)) \<and>
   (isl (located E) \<longrightarrow>
      my_location E w = ((PNone, PNone), w\<lparr>sent := sent w @ [location_request]\<rparr>) \<and>
      on_use_location E w =
        (Inr (), w\<lparr>sent := sent w @ [location_request],
                  notices := notices w @ [Showerror (u ''Location failed'')
                    (PStr (u ''Could not detect location via IP.''))]\<rparr>))"
proof (intro conjI impI)
  show "isl (located E)" if "lookup_fails E"
    using that by (rule lookup_fails_located)
next
  assume "isl (located E)"
  then obtain e where e: "located E = Inl e"
    by (cases "located E") simp_all
  show "my_location E w = ((PNone, PNone), w\<lparr>sent := sent w @ [location_request]\<rparr>)"
    by (simp add: my_location_eq e)
  show "on_use_location E w =
        (Inr (), w\<lparr>sent := sent w @ [location_request],
                  notices := notices w @ [Showerror (u ''Location failed'')
                    (PStr (u ''Could not detect location via IP.''))]\<rparr>)"
    by (simp add: on_use_location_def my_location_eq e showerror_def)
qed

theorem C9_location_failure_witness:
  "lookup_fails (demo_env (\<lambda>r. Fails (u ''timed out''))) \<and>
   on_use_location (demo_env (\<lambda>r. Fails (u ''timed out''))) new_app =
     (Inr (), new_app\<lparr>sent := [location_request],
        notices := [Showerror (u ''Location failed'')
                      (PStr (u ''Could not detect location via IP.''))]\<rparr>)"
proof -
  have h: "lookup_fails (demo_env (\<lambda>r. Fails (u ''timed out'')))"
    by (simp add: lookup_fails_def demo_env_def)
  show ?thesis
    using h C9_location_failure [of "demo_env (\<lambda>r. Fails (u ''timed out''))" new_app]
    by (simp add: new_app_def)
qed

text \<open>
  C2. Suppose the current-conditions answer has been fetched and read, and the \<open>try\<close> of
  the forecast raises, in the fetch (time-out, network error, error status, a body that
  is not JSON) or while the text is built. Then, from any state, the forecast step changes
  only the forecast area, which it sets to \<open>No forecast available.\<close>, and the record of
  its one request; and \<open>fetch_and_display\<close> as a whole returns with the city, condition,
  temperature and detail labels holding what was read, that placeholder in the forecast
  area, and no modal box added.
\<close>

theorem C2_forecast_failure_is_local:
  assumes "fetched (net E (weather_request E q lat lon (unit_var w))) = Inr data"
    and "top_info E data = Inr (name, country, weather_desc, temp, feels, humidity, wind)"
    and "bnd (fetched (net E (forecast_request E q lat lon (unit_var w))))
           (forecast_text_of E (units_label_of (unit_var w))) = Inl e"
  shows "show_forecast E q lat lon (unit_var w) (units_label_of (unit_var w)) s =
           s\<lparr>sent := sent s @ [forecast_request E q lat lon (unit_var w)],
             forecast_text := \<lparr>enabled = False, shown = u ''No forecast available.''\<rparr>\<rparr> \<and>
         fst (fetch_and_display E q lat lon w) = Inr () \<and>
         city_label (snd (fetch_and_display E q lat lon w)) =
           py_str E name @ u '', '' @ py_str E country \<and>
         cond_label (snd (fetch_and_display E q lat lon w)) = weather_desc \<and>
         temp_label (snd (fetch_and_display E q lat lon w)) =
           py_str E temp @ u '' '' @ units_label_of (unit_var w) \<and>
         detail_label (snd (fetch_and_display E q lat lon w)) =
           u ''Feels like: '' @ py_str E feels @ u '' '' @ units_label_of (unit_var w)
           @ u '' | Humidity: '' @ py_str E humidity @ u ''% | Wind: '' @ py_str E wind
           @ u '' m/s'' \<and>
         forecast_text (snd (fetch_and_display E q lat lon w)) =
           \<lparr>enabled = False, shown = u ''No forecast available.''\<rparr> \<and>
         notices (snd (fetch_and_display E q lat lon w)) = notices w"
proof -
  let ?info = "(name, country, weather_desc, temp, feels, humidity, wind)"
  have step: "show_forecast E q lat lon (unit_var w) (units_label_of (unit_var w)) s =
           s\<lparr>sent := sent s @ [forecast_request E q lat lon (unit_var w)],
             forecast_text := \<lparr>enabled = False, shown = u ''No forecast available.''\<rparr>\<rparr>" for s
    by (simp add: show_forecast_eq assms(3))
  from assms(2) obtain c where c: "icon_code_of data = Inr c"
    by (rule top_info_icon_code)
  have whole: "fetch_and_display E q lat lon w =
     (Inr (),
      show_forecast E q lat lon (unit_var w) (units_label_of (unit_var w))
        (let w2 = show_top_info E (units_label_of (unit_var w)) ?info
                    (w\<lparr>sent := sent w @ [weather_request E q lat lon (unit_var w)]\<rparr>)
         in if py_truthy E c then show_icon E c w2 else w2))"
    using assms(1,2) c by (rule fetch_and_display_shown)
  show ?thesis
    unfolding whole step
    by (simp add: Let_def show_icon_frame show_top_info_fields)
qed

theorem C2_forecast_failure_witness:
  "forecast_text (snd (fetch_and_display
      (demo_env (demo_net (ok_json bengaluru) (Fails (u ''timed out'')) (Fails [])))
      (PStr (u ''Bengaluru'')) PNone PNone new_app)) =
     \<lparr>enabled = False, shown = u ''No forecast available.''\<rparr> \<and>
   city_label (snd (fetch_and_display
      (demo_env (demo_net (ok_json bengaluru) (Fails (u ''timed out'')) (Fails [])))
      (PStr (u ''Bengaluru'')) PNone PNone new_app)) = u ''Bengaluru, IN'' \<and>
   cond_label (snd (fetch_and_display
      (demo_env (demo_net (ok_json bengaluru) (Fails (u ''timed out'')) (Fails [])))
      (PStr (u ''Bengaluru'')) PNone PNone new_app)) = u ''Clear Sky'' \<and>
   notices (snd (fetch_and_display
      (demo_env (demo_net (ok_json bengaluru) (Fails (u ''timed out'')) (Fails [])))
      (PStr (u ''Bengaluru'')) PNone PNone new_app)) = []"
proof -
  let ?E = "demo_env (demo_net (ok_json bengaluru) (Fails (u ''timed out'')) (Fails []))"
  have h1: "fetched (net ?E (weather_request ?E (PStr (u ''Bengaluru'')) PNone PNone
              (unit_var (new_app :: ustr app)))) = Inr bengaluru"
    by (simp add: demo_env_def demo_net_def weather_request_def fetched_def ok_json_def
        raise_for_status_def response_json_def)
  have h2: "top_info ?E bengaluru =
      Inr (PStr (u ''Bengaluru''), PStr (u ''IN''), u ''Clear Sky'', PFloat (u ''27.5''),
           PFloat (u ''29.1''), PInt 70, PFloat (u ''3.1''))"
    by (simp add: top_info_def bengaluru_def demo_env_def u_def title_def ascii_cased_def
        ascii_title_def ascii_lower_at_def)
  have h3: "bnd (fetched (net ?E (forecast_request ?E (PStr (u ''Bengaluru'')) PNone PNone
              (unit_var (new_app :: ustr app)))))
           (forecast_text_of ?E (units_label_of (unit_var (new_app :: ustr app)))) =
         Inl (RequestException (u ''timed out''))"
    by (simp add: demo_env_def demo_net_def forecast_request_def fetched_def WEATHER_URL_def
        FORECAST_URL_def u_def)
  show ?thesis
    using C2_forecast_failure_is_local [OF h1 h2 h3, of new_app]
    by (simp add: u_def demo_env_def new_app_def)
qed

text \<open>
  C1, as stated, fails: an answer without \<open>weather\<close> whose \<open>main\<close> member is a number
  makes \<open>data.get("main", {}).get("temp")\<close> raise \<open>AttributeError\<close>, which nothing
  catches, before any label is set.
\<close>

theorem C1_counterexample:
  "fetched (net (provider (PDict [(u ''name'', PStr (u ''Pune'')), (u ''main'', PInt 5)]) (Fails []))
      (weather_request
         (provider (PDict [(u ''name'', PStr (u ''Pune'')), (u ''main'', PInt 5)]) (Fails []))
         (PStr (u ''Pune'')) PNone PNone (u ''metric''))) =
     Inr (PDict [(u ''name'', PStr (u ''Pune'')), (u ''main'', PInt 5)]) \<and>
   map_of [(u ''name'', PStr (u ''Pune'')), (u ''main'', PInt (5 :: int))] (u ''weather'') = None \<and>
   fetch_and_display
     (provider (PDict [(u ''name'', PStr (u ''Pune'')), (u ''main'', PInt 5)]) (Fails []))
     (PStr (u ''Pune'')) PNone PNone new_app =
     (Inl AttributeError,
      new_app\<lparr>sent := [Request WEATHER_URL
        [(u ''appid'', PStr (u ''key'')), (u ''units'', PStr (u ''metric'')),
         (u ''q'', PStr (u ''Pune''))] 10]\<rparr>)"
  by (simp add: provider_def demo_env_def demo_net_def ok_json_def fetched_def
      raise_for_status_def response_json_def weather_request_def location_params_def
      fetch_and_display_def fetch_weather_def requests_get_def new_app_def top_info_def u_def)

text \<open>
  C1, amended. When the current-conditions answer is a JSON object without \<open>weather\<close>
  whose \<open>sys\<close>, \<open>main\<close> and \<open>wind\<close> members are each missing or an object,
  \<open>fetch_and_display\<close> returns without an exception, the condition label is the empty
  text, the icon identifier is \<open>None\<close> and no icon is requested: the only requests sent
  are the one for the current conditions and the one for the forecast.
\<close>

theorem C1_missing_weather_renders_empty:
  assumes "fetched (net E (weather_request E q lat lon (unit_var w))) = Inr (PDict kvs)"
    and "map_of kvs (u ''weather'') = None"
    and "dict_or_missing kvs (u ''sys'')"
    and "dict_or_missing kvs (u ''main'')"
    and "dict_or_missing kvs (u ''wind'')"
  shows "fst (fetch_and_display E q lat lon w) = Inr () \<and>
         cond_label (snd (fetch_and_display E q lat lon w)) = [] \<and>
         icon_code_of (PDict kvs) = Inr PNone \<and>
         sent (snd (fetch_and_display E q lat lon w)) =
           sent w @ [weather_request E q lat lon (unit_var w),
                     forecast_request E q lat lon (unit_var w)]"
proof -
  from assms(2-5) obtain name country temp feels humidity wind
    where info: "top_info E (PDict kvs) = Inr (name, country, [], temp, feels, humidity, wind)"
    by (rule top_info_no_weather)
  have c: "icon_code_of (PDict kvs) = Inr PNone"
    using assms(2) by (rule icon_code_no_weather)
  have whole: "fetch_and_display E q lat lon w =
     (Inr (),
      show_forecast E q lat lon (unit_var w) (units_label_of (unit_var w))
        (let w2 = show_top_info E (units_label_of (unit_var w))
                    (name, country, [], temp, feels, humidity, wind)
                    (w\<lparr>sent := sent w @ [weather_request E q lat lon (unit_var w)]\<rparr>)
         in if py_truthy E PNone then show_icon E PNone w2 else w2))"
    using assms(1) info c by (rule fetch_and_display_shown)
  show ?thesis
    unfolding whole
    by (simp add: c show_forecast_eq show_top_info_fields)
qed

theorem C1_missing_weather_witness:
  "fst (fetch_and_display (provider (PDict [(u ''name'', PStr (u ''Pune''))]) (Fails []))
         (PStr (u ''Pune'')) PNone PNone new_app) = Inr () \<and>
   cond_label (snd (fetch_and_display (provider (PDict [(u ''name'', PStr (u ''Pune''))]) (Fails []))
         (PStr (u ''Pune'')) PNone PNone new_app)) = [] \<and>
   icon_code_of (PDict [(u ''name'', PStr (u ''Pune'') :: ustr pyval)]) = Inr PNone \<and>
   map url (sent (snd (fetch_and_display
         (provider (PDict [(u ''name'', PStr (u ''Pune''))]) (Fails []))
         (PStr (u ''Pune'')) PNone PNone new_app))) = [WEATHER_URL, FORECAST_URL]"
proof -
  let ?E = "provider (PDict [(u ''name'', PStr (u ''Pune''))]) (Fails [])"
  have h1: "fetched (net ?E (weather_request ?E (PStr (u ''Pune'')) PNone PNone
              (unit_var (new_app :: ustr app)))) = Inr (PDict [(u ''name'', PStr (u ''Pune''))])"
    by (simp add: provider_def demo_env_def demo_net_def weather_request_def fetched_def
        ok_json_def raise_for_status_def response_json_def)
  have h2: "map_of [(u ''name'', PStr (u ''Pune'') :: ustr pyval)] (u ''weather'') = None"
    by (simp add: u_def)
  have h3: "dict_or_missing [(u ''name'', PStr (u ''Pune'') :: ustr pyval)] (u ''sys'')"
    "dict_or_missing [(u ''name'', PStr (u ''Pune'') :: ustr pyval)] (u ''main'')"
    "dict_or_missing [(u ''name'', PStr (u ''Pune'') :: ustr pyval)] (u ''wind'')"
    by (simp_all add: dict_or_missing_def u_def)
  show ?thesis
    using C1_missing_weather_renders_empty [OF h1 h2 h3]
    by (simp add: new_app_def weather_request_def forecast_request_def)
qed

text \<open>
  C10. When the current-conditions answer is a JSON object whose \<open>weather\<close> is the empty
  list, \<open>fetch_and_display\<close> ends with an exception that nothing catches, before any
  label is set; it is the \<open>IndexError\<close> of \<open>[0]\<close> whenever \<open>sys\<close> is missing or an
  object. Conversely, whenever \<open>fetch_and_display\<close> returns on a fetched answer, that
  answer is an object whose \<open>weather\<close> is missing or a non-empty list. The loop over the
  forecast entries has the same boundary: an entry whose \<open>weather\<close> is the empty list
  makes its turn of the loop raise (the \<open>IndexError\<close> of \<open>[0]\<close> whenever \<open>main\<close> is
  missing or an object); there the \<open>except\<close> of the forecast catches it, and the
  forecast area shows the placeholder.
\<close>

theorem C10_empty_weather_list_raises:
  "(fetched (net E (weather_request E q lat lon (unit_var w))) = Inr (PDict kvs) \<and>
    map_of kvs (u ''weather'') = Some (PList []) \<longrightarrow>
      (\<exists>e. fetch_and_display E q lat lon w =
              (Inl e, w\<lparr>sent := sent w @ [weather_request E q lat lon (unit_var w)]\<rparr>) \<and>
           (dict_or_missing kvs (u ''sys'') \<longrightarrow> e = IndexError))) \<and>
   (fetched (net E (weather_request E q lat lon (unit_var w))) = Inr data \<and>
    fst (fetch_and_display E q lat lon w) = Inr () \<longrightarrow>
      (\<exists>dkvs. data = PDict dkvs \<and>
         (map_of dkvs (u ''weather'') = None \<or>
          (\<exists>x xs. map_of dkvs (u ''weather'') = Some (PList (x # xs)))))) \<and>
   (map_of ikvs (u ''weather'') = Some (PList []) \<longrightarrow>
      isl (forecast_line E suffix (PDict ikvs)) \<and>
      (dict_or_missing ikvs (u ''main'') \<longrightarrow> forecast_line E suffix (PDict ikvs) = Inl IndexError) \<and>
      (fetched (net E (forecast_request E q lat lon units)) = Inr (PDict fkvs) \<and>
       map_of fkvs (u ''list'') = Some (PList items) \<and> PDict ikvs \<in> set (take 5 items) \<longrightarrow>
         show_forecast E q lat lon units suffix s =
           s\<lparr>sent := sent s @ [forecast_request E q lat lon units],
             forecast_text := \<lparr>enabled = False, shown = u ''No forecast available.''\<rparr>\<rparr>))"
proof (intro conjI impI)
  assume a: "fetched (net E (weather_request E q lat lon (unit_var w))) = Inr (PDict kvs) \<and>
    map_of kvs (u ''weather'') = Some (PList [])"
  then have t: "top_info E (PDict kvs) =
     (case member_or kvs (u ''sys'') (PDict []) of
        PDict sd \<Rightarrow> Inl IndexError
      | other \<Rightarrow> Inl AttributeError)"
    by (simp add: top_info_empty_weather)
  then obtain e where e: "top_info E (PDict kvs) = Inl e"
    by (cases "member_or kvs (u ''sys'') (PDict [])") simp_all
  have "dict_or_missing kvs (u ''sys'') \<longrightarrow> e = IndexError"
  proof
    assume "dict_or_missing kvs (u ''sys'')"
    then obtain sd where "member_or kvs (u ''sys'') (PDict []) = PDict sd"
      by (rule member_or_dict)
    with t e show "e = IndexError" by simp
  qed
  moreover have "fetch_and_display E q lat lon w =
      (Inl e, w\<lparr>sent := sent w @ [weather_request E q lat lon (unit_var w)]\<rparr>)"
    using a e by (simp add: fetch_and_display_raises)
  ultimately show "\<exists>e. fetch_and_display E q lat lon w =
              (Inl e, w\<lparr>sent := sent w @ [weather_request E q lat lon (unit_var w)]\<rparr>) \<and>
           (dict_or_missing kvs (u ''sys'') \<longrightarrow> e = IndexError)"
    by blast
next
  assume a: "fetched (net E (weather_request E q lat lon (unit_var w))) = Inr data \<and>
    fst (fetch_and_display E q lat lon w) = Inr ()"
  show "\<exists>dkvs. data = PDict dkvs \<and>
         (map_of dkvs (u ''weather'') = None \<or>
          (\<exists>x xs. map_of dkvs (u ''weather'') = Some (PList (x # xs))))"
  proof (cases "top_info E data")
    case (Inl e)
    with a have "fetch_and_display E q lat lon w =
        (Inl e, w\<lparr>sent := sent w @ [weather_request E q lat lon (unit_var w)]\<rparr>)"
      by (simp add: fetch_and_display_raises)
    with a show ?thesis by simp
  next
    case (Inr info)
    then show ?thesis
      by (rule top_info_needs_weather) blast
  qed
next
  assume w: "map_of ikvs (u ''weather'') = Some (PList [])"
  have l: "forecast_line E suffix (PDict ikvs) =
     (case member_or ikvs (u ''main'') (PDict []) of
        PDict md \<Rightarrow> Inl IndexError
      | other \<Rightarrow> Inl AttributeError)"
    using w by (rule forecast_line_empty_weather)
  then show raises: "isl (forecast_line E suffix (PDict ikvs))"
    by (cases "member_or ikvs (u ''main'') (PDict [])") simp_all
  show "forecast_line E suffix (PDict ikvs) = Inl IndexError" if "dict_or_missing ikvs (u ''main'')"
  proof -
    from that obtain md where "member_or ikvs (u ''main'') (PDict []) = PDict md"
      by (rule member_or_dict)
    with l show ?thesis by simp
  qed
  show "show_forecast E q lat lon units suffix s =
           s\<lparr>sent := sent s @ [forecast_request E q lat lon units],
             forecast_text := \<lparr>enabled = False, shown = u ''No forecast available.''\<rparr>\<rparr>"
    if b: "fetched (net E (forecast_request E q lat lon units)) = Inr (PDict fkvs) \<and>
       map_of fkvs (u ''list'') = Some (PList items) \<and> PDict ikvs \<in> set (take 5 items)"
  proof -
    from b raises have "\<exists>it \<in> set (take 5 items). isl (forecast_line E suffix it)"
      by blast
    then have "isl (forecast_loop E suffix (take 5 items) [])"
      by (rule forecast_loop_raises)
    moreover from b have "forecast_text_of E suffix (PDict fkvs) =
        forecast_loop E suffix (take 5 items) []"
      by (simp add: forecast_text_of_def)
    ultimately obtain e where "bnd (fetched (net E (forecast_request E q lat lon units)))
        (forecast_text_of E suffix) = Inl e"
      using b by (cases "forecast_loop E suffix (take 5 items) []") simp_all
    then show ?thesis
      by (simp add: show_forecast_eq)
  qed
qed

theorem C10_empty_weather_list_witness:
  "fetch_and_display
     (provider (PDict [(u ''name'', PStr (u ''Pune'')), (u ''weather'', PList [])]) (Fails []))
     (PStr (u ''Pune'')) PNone PNone new_app =
   (Inl IndexError,
    new_app\<lparr>sent := [Request WEATHER_URL
      [(u ''appid'', PStr (u ''key'')), (u ''units'', PStr (u ''metric'')),
       (u ''q'', PStr (u ''Pune''))] 10]\<rparr>) \<and>
   forecast_line (provider PNone (Fails [])) [] (PDict [(u ''weather'', PList [])]) = Inl IndexError"
proof -
  let ?kvs = "[(u ''name'', PStr (u ''Pune'')), (u ''weather'', PList [])] :: (ustr \<times> ustr pyval) list"
  let ?E = "provider (PDict ?kvs) (Fails [])"
  have h1: "fetched (net ?E (weather_request ?E (PStr (u ''Pune'')) PNone PNone
              (unit_var (new_app :: ustr app)))) = Inr (PDict ?kvs)"
    by (simp add: provider_def demo_env_def demo_net_def weather_request_def fetched_def
        ok_json_def raise_for_status_def response_json_def)
  have h2: "map_of ?kvs (u ''weather'') = Some (PList [])"
    by (simp add: u_def)
  have h3: "dict_or_missing ?kvs (u ''sys'')"
    by (simp add: dict_or_missing_def u_def)
  have h4: "map_of [(u ''weather'', PList [] :: ustr pyval)] (u ''weather'') = Some (PList [])"
    by simp
  have h5: "dict_or_missing [(u ''weather'', PList [] :: ustr pyval)] (u ''main'')"
    by (simp add: dict_or_missing_def u_def)
  from h1 h2 h3
    C10_empty_weather_list_raises [of ?E "PStr (u ''Pune'')" PNone PNone new_app ?kvs]
  have first: "fetch_and_display ?E (PStr (u ''Pune'')) PNone PNone new_app =
     (Inl IndexError,
      new_app\<lparr>sent := sent new_app @ [weather_request ?E (PStr (u ''Pune'')) PNone PNone
        (unit_var (new_app :: ustr app))]\<rparr>)"
    by auto
  from h4 h5
    C10_empty_weather_list_raises [where ikvs = "[(u ''weather'', PList [] :: ustr pyval)]"
      and E = "provider PNone (Fails [])" and suffix = "[]"]
  have second: "forecast_line (provider PNone (Fails [])) []
      (PDict [(u ''weather'', PList [])]) = Inl IndexError"
    by blast
  from first second show ?thesis
    by (simp add: new_app_def weather_request_def location_params_def provider_def demo_env_def
        u_def)
qed

text \<open>
  C5, as stated, fails: a forecast answer whose list holds one entry, with an empty
  \<open>weather\<close> list, makes the loop raise; the forecast area then holds the placeholder and
  not one line for that entry.
\<close>

theorem C5_counterexample:
  "forecast_text (snd (fetch_and_display
     (provider bengaluru (ok_json (PDict [(u ''list'', PList [PDict [(u ''weather'', PList [])]])])))
     (PStr (u ''Bengaluru'')) PNone PNone new_app)) =
   \<lparr>enabled = False, shown = u ''No forecast available.''\<rparr>"
  by (simp add: provider_def demo_env_def demo_net_def ok_json_def fetched_def
      raise_for_status_def response_json_def weather_request_def forecast_request_def
      location_params_def fetch_and_display_def fetch_weather_eq show_forecast_eq
      show_icon_def requests_get_def show_top_info_def icon_code_of_def forecast_text_of_def
      forecast_line_def new_app_def top_info_def bengaluru_def WEATHER_URL_def FORECAST_URL_def
      ICON_URL_def Let_def u_def)

text \<open>
  C5, amended. When the forecast answer is a JSON object whose \<open>list\<close> is a list of \<open>n\<close>
  entries, and each of the first five of them can be rendered (an object whose \<open>main\<close> is
  missing or an object, whose \<open>weather\<close> is missing or a list that starts with an
  object, with a \<open>description\<close> that is missing or a text), the forecast step sets the
  forecast area to \<open>min n 5\<close> lines, one for each of the first entries in their order,
  each of the form time stamp, em dash, temperature and unit suffix, em dash,
  capitalised description, newline. With no entries the text is empty, and it is not the
  placeholder of a failure.
\<close>

theorem C5_forecast_lines:
  assumes "fetched (net E (forecast_request E q lat lon units)) = Inr (PDict fkvs)"
    and "map_of fkvs (u ''list'') = Some (PList items)"
    and "list_all entry_ok (take 5 items)"
  shows "show_forecast E q lat lon units (units_label_of units) s =
           s\<lparr>sent := sent s @ [forecast_request E q lat lon units],
             forecast_text :=
               \<lparr>enabled = False,
                shown = concat (map (entry_line E (units_label_of units)) (take 5 items))\<rparr>\<rparr> \<and>
         length (map (entry_line E (units_label_of units)) (take 5 items)) = min (length items) 5 \<and>
         (\<forall>i < min (length items) 5.
            map (entry_line E (units_label_of units)) (take 5 items) ! i =
              entry_line E (units_label_of units) (items ! i)) \<and>
         (items = [] \<longrightarrow>
            shown (forecast_text (show_forecast E q lat lon units (units_label_of units) s)) = [])"
proof -
  have "forecast_text_of E (units_label_of units) (PDict fkvs) =
      Inr (concat (map (entry_line E (units_label_of units)) (take 5 items)))"
    using assms(2,3) by (simp add: forecast_text_of_def forecast_loop_ok)
  with assms(1)
  have step: "show_forecast E q lat lon units (units_label_of units) s =
           s\<lparr>sent := sent s @ [forecast_request E q lat lon units],
             forecast_text :=
               \<lparr>enabled = False,
                shown = concat (map (entry_line E (units_label_of units)) (take 5 items))\<rparr>\<rparr>"
    by (simp add: show_forecast_eq)
  have len: "length (map (entry_line E (units_label_of units)) (take 5 items)) = min (length items) 5"
    by simp
  have nth: "\<forall>i < min (length items) 5.
            map (entry_line E (units_label_of units)) (take 5 items) ! i =
              entry_line E (units_label_of units) (items ! i)"
    by simp
  from step len nth show ?thesis
    by simp
qed

theorem C5_forecast_lines_witness:
  "shown (forecast_text (show_forecast
      (provider PNone (ok_json (PDict [(u ''list'',
         PList [PDict [(u ''dt_txt'', PStr (u ''2024-05-01 12:00:00'')),
                       (u ''main'', PDict [(u ''temp'', PFloat (u ''27.5''))]),
                       (u ''weather'', PList [PDict [(u ''description'', PStr (u ''light rain''))]])],
                PDict []])])))
      (PStr (u ''Pune'')) PNone PNone (u ''metric'') (units_label_of (u ''metric'')) new_app)) =
   u ''2024-05-01 12:00:00 '' @ [emdash] @ u '' 27.5'' @ [degree] @ u ''C '' @ [emdash]
   @ u '' Light Rain'' @ [10]
   @ [emdash, 32, emdash, 32, emdash, degree] @ u ''C '' @ [emdash, 32, 10]"
proof -
  let ?items = "[PDict [(u ''dt_txt'', PStr (u ''2024-05-01 12:00:00'')),
                       (u ''main'', PDict [(u ''temp'', PFloat (u ''27.5''))]),
                       (u ''weather'', PList [PDict [(u ''description'', PStr (u ''light rain''))]])],
                PDict []] :: ustr pyval list"
  let ?E = "provider PNone (ok_json (PDict [(u ''list'', PList ?items)]))"
  have h1: "fetched (net ?E (forecast_request ?E (PStr (u ''Pune'')) PNone PNone (u ''metric''))) =
      Inr (PDict [(u ''list'', PList ?items)])"
    by (simp add: provider_def demo_env_def demo_net_def forecast_request_def fetched_def
        ok_json_def raise_for_status_def response_json_def WEATHER_URL_def FORECAST_URL_def u_def)
  have h2: "map_of [(u ''list'', PList ?items)] (u ''list'') = Some (PList ?items)"
    by simp
  have h3: "list_all entry_ok (take 5 ?items)"
    by (simp add: dict_or_missing_def u_def)
  show ?thesis
    using C5_forecast_lines [OF h1 h2 h3, of new_app]
    by (simp add: entry_line_def member_or_def provider_def demo_env_def title_def
        ascii_cased_def ascii_title_def ascii_lower_at_def units_label_of_def u_def)
qed

text \<open>
  C6. With the imperial system selected, the temperature and the feels-like value carry
  the suffix of degrees Fahrenheit, but the wind speed is still followed by \<open>m/s\<close>: the
  detail line writes that unit as a fixed text, whatever the unit system.
\<close>

theorem C6_wind_unit_is_fixed:
  "temp_label (snd (fetch_and_display (provider bengaluru (Fails []))
      (PStr (u ''Bengaluru'')) PNone PNone (new_app\<lparr>unit_var := u ''imperial''\<rparr>))) =
     u ''27.5 '' @ [degree] @ u ''F'' \<and>
   detail_label (snd (fetch_and_display (provider bengaluru (Fails []))
      (PStr (u ''Bengaluru'')) PNone PNone (new_app\<lparr>unit_var := u ''imperial''\<rparr>))) =
     u ''Feels like: 29.1 '' @ [degree] @ u ''F | Humidity: 70% | Wind: 3.1 m/s''"
proof -
  let ?E = "provider bengaluru (Fails [])"
  let ?w = "new_app\<lparr>unit_var := u ''imperial''\<rparr> :: ustr app"
  have h1: "fetched (net ?E (weather_request ?E (PStr (u ''Bengaluru'')) PNone PNone (unit_var ?w))) =
      Inr bengaluru"
    by (simp add: provider_def demo_env_def demo_net_def weather_request_def fetched_def
        ok_json_def raise_for_status_def response_json_def)
  have h2: "top_info ?E bengaluru =
      Inr (PStr (u ''Bengaluru''), PStr (u ''IN''), u ''Clear Sky'', PFloat (u ''27.5''),
           PFloat (u ''29.1''), PInt 70, PFloat (u ''3.1''))"
    by (simp add: top_info_def bengaluru_def provider_def demo_env_def u_def title_def
        ascii_cased_def ascii_title_def ascii_lower_at_def)
  have h3: "icon_code_of bengaluru = Inr (PStr (u ''01d''))"
    by (simp add: icon_code_of_def bengaluru_def u_def)
  have seventy: "int_str 70 = u ''70''"
    by (simp add: int_str_def dec_nat.simps u_def)
  show ?thesis
    unfolding fetch_and_display_shown [OF h1 h2 h3]
    by (simp add: show_forecast_eq show_icon_frame show_top_info_fields units_label_of_def
        provider_def demo_env_def seventy u_def)
qed

text \<open>
  C7. A lookup whose answer carries an icon identifier shows the downloaded image. A
  second lookup whose answer carries none leaves that image in the icon region: the
  block under \<open>if icon_code:\<close> is skipped as a whole, and nothing clears the label.
\<close>

theorem C7_previous_icon_remains:
  "icon_label (snd (fetch_and_display
      (demo_env (demo_net (ok_json bengaluru) (Fails [])
         (Replies (Response None [137, 80, 78, 71] (Inl [])))))
      (PStr (u ''Bengaluru'')) PNone PNone new_app)) = Some (Picture [137, 80, 78, 71] 100 100) \<and>
   icon_label (snd (fetch_and_display
      (provider (PDict [(u ''name'', PStr (u ''Pune''))]) (Fails []))
      (PStr (u ''Pune'')) PNone PNone
      (snd (fetch_and_display
         (demo_env (demo_net (ok_json bengaluru) (Fails [])
            (Replies (Response None [137, 80, 78, 71] (Inl [])))))
         (PStr (u ''Bengaluru'')) PNone PNone new_app)))) = Some (Picture [137, 80, 78, 71] 100 100) \<and>
   city_label (snd (fetch_and_display
      (provider (PDict [(u ''name'', PStr (u ''Pune''))]) (Fails []))
      (PStr (u ''Pune'')) PNone PNone
      (snd (fetch_and_display
         (demo_env (demo_net (ok_json bengaluru) (Fails [])
            (Replies (Response None [137, 80, 78, 71] (Inl [])))))
         (PStr (u ''Bengaluru'')) PNone PNone new_app)))) = u ''Pune, ''"
proof -
  let ?E1 = "demo_env (demo_net (ok_json bengaluru) (Fails [])
         (Replies (Response None [137, 80, 78, 71] (Inl []))))"
  let ?E2 = "provider (PDict [(u ''name'', PStr (u ''Pune''))]) (Fails [])"
  let ?w1 = "snd (fetch_and_display ?E1 (PStr (u ''Bengaluru'')) PNone PNone new_app)"
  have a1: "fetched (net ?E1 (weather_request ?E1 (PStr (u ''Bengaluru'')) PNone PNone
              (unit_var (new_app :: ustr app)))) = Inr bengaluru"
    by (simp add: demo_env_def demo_net_def weather_request_def fetched_def
        ok_json_def raise_for_status_def response_json_def)
  have a2: "top_info ?E1 bengaluru =
      Inr (PStr (u ''Bengaluru''), PStr (u ''IN''), u ''Clear Sky'', PFloat (u ''27.5''),
           PFloat (u ''29.1''), PInt 70, PFloat (u ''3.1''))"
    by (simp add: top_info_def bengaluru_def demo_env_def u_def title_def
        ascii_cased_def ascii_title_def ascii_lower_at_def)
  have a3: "icon_code_of bengaluru = Inr (PStr (u ''01d''))"
    by (simp add: icon_code_of_def bengaluru_def u_def)
  have icon: "show_icon ?E1 (PStr (u ''01d'')) s =
      s\<lparr>sent := sent s @ [Request (ICON_URL ?E1 (PStr (u ''01d''))) [] 8],
        icon_label := Some (Picture [137, 80, 78, 71] 100 100),
        icon_img := Some (Picture [137, 80, 78, 71] 100 100)\<rparr>" for s :: "ustr app"
    by (simp add: show_icon_def requests_get_def demo_env_def demo_net_def ICON_URL_def
        raise_for_status_def WEATHER_URL_def FORECAST_URL_def u_def)
  have truthy: "u ''01d'' \<noteq> []"
    by (simp add: u_def)
  have first: "icon_label ?w1 = Some (Picture [137, 80, 78, 71] 100 100)"
    and unit1: "unit_var ?w1 = u ''metric''"
    unfolding fetch_and_display_shown [OF a1 a2 a3]
    by (simp_all add: Let_def truthy show_forecast_eq icon show_top_info_fields new_app_def)
  have b1: "fetched (net ?E2 (weather_request ?E2 (PStr (u ''Pune'')) PNone PNone (unit_var ?w1))) =
      Inr (PDict [(u ''name'', PStr (u ''Pune''))])"
    by (simp add: provider_def demo_env_def demo_net_def weather_request_def fetched_def
        ok_json_def raise_for_status_def response_json_def)
  have b2: "top_info ?E2 (PDict [(u ''name'', PStr (u ''Pune''))]) =
      Inr (PStr (u ''Pune''), PStr [], [], PNone, PNone, PNone, PNone)"
    by (simp add: top_info_def u_def title_def)
  have b3: "icon_code_of (PDict [(u ''name'', PStr (u ''Pune'') :: ustr pyval)]) = Inr PNone"
    by (simp add: icon_code_of_def u_def)
  have second: "icon_label (snd (fetch_and_display ?E2 (PStr (u ''Pune'')) PNone PNone ?w1)) =
      icon_label ?w1"
    and city: "city_label (snd (fetch_and_display ?E2 (PStr (u ''Pune'')) PNone PNone ?w1)) =
      u ''Pune, ''"
    unfolding fetch_and_display_shown [OF b1 b2 b3]
    by (simp_all add: show_forecast_eq show_top_info_fields u_def)
  from first second city show ?thesis
    by simp
qed

end
